theory Spec2Isabelle
  imports Complex_Main
begin

section \<open>Values exchanged with the outside\<close>

text \<open>
  A request body, a response body and a token payload are JSON values as Python holds
  them after parsing. The type \<open>'f\<close> stands for Python's \<open>float\<close>: nothing is assumed
  about its arithmetic, every operation on it is a parameter (see \<open>ext\<close> below).
  A Python \<open>dict\<close> is an association list in insertion order.
\<close>

datatype 'f json =
    JNull
  | JBool bool
  | JInt int
  | JFloat 'f
  | JStr string
  | JList "'f json list"
  | JObj "(string \<times> 'f json) list"

type_synonym 'f dict = "(string \<times> 'f json) list"

text \<open>
  Exceptions that leave a handler uncaught: a missing dict key, an attribute of \<open>None\<close>
  (or a method a value does not have), an exception raised where bcrypt is called (its
  own or that of \<open>encode()\<close>), and a value the storage layer cannot keep in its column.
\<close>

datatype py_error = KeyError | AttributeError | LibraryError | StorageError

text \<open>What a handler hands back to Flask: a status with a JSON body, or an exception.\<close>

datatype 'f result = Response nat "'f json" | Raised py_error

text \<open>The ways \<open>schema.Schema(dict).validate\<close> fails.\<close>

datatype schema_error =
    NotADict
  | KeyInvalid string
  | MissingKeys "string list"
  | WrongKeys "string list"

section \<open>Libraries and configuration\<close>

text \<open>
  The third-party code the views call (PyJWT, bcrypt, the float and string conversions of
  the Python builtins, the text of a \<open>SchemaError\<close>) is a parameter of the model.
  \<open>None\<close> is a raised exception. \<open>bcrypt_hashpw p s\<close> stands for the whole expression
  \<open>bcrypt.hashpw(p.encode(), s).decode()\<close> and \<open>bcrypt_checkpw p h\<close> for
  \<open>bcrypt.checkpw(p.encode(), h.encode())\<close>: it is \<open>None\<close> when bcrypt or one of the
  \<open>encode()\<close> calls raises. \<open>float_str\<close> is the text the storage layer gives a float.
\<close>

record 'f ext =
  int_of_str :: "string \<Rightarrow> int option"
  int_of_float :: "'f \<Rightarrow> int option"
  float_of_str :: "string \<Rightarrow> 'f option"
  float_of_int :: "int \<Rightarrow> 'f option"
  float_ge0 :: "'f \<Rightarrow> bool"
  float_add_int :: "'f \<Rightarrow> int \<Rightarrow> 'f"
  float_str :: "'f \<Rightarrow> string"
  bcrypt_hashpw :: "string \<Rightarrow> string \<Rightarrow> string option"
  bcrypt_checkpw :: "string \<Rightarrow> string \<Rightarrow> bool option"
  jwt_encode :: "'f dict \<Rightarrow> string \<Rightarrow> string \<Rightarrow> string"
  jwt_decode :: "string \<Rightarrow> string \<Rightarrow> string list \<Rightarrow> 'f dict option"
  error_str :: "schema_error \<Rightarrow> string"

text \<open>\<open>flask.current_app.config\<close>, read-only.\<close>

record config =
  JWT_PRIVATE_KEY :: string
  JWT_PUBLIC_KEY :: string
  JWT_ALGORITHM :: string

text \<open>
  What the surroundings supply during one request: the result of \<open>uuid.uuid4()\<close>, of
  \<open>bcrypt.gensalt()\<close>, the value of the k-th call of \<open>time()\<close>, and the primary key the
  storage layer gives a new product row.
\<close>

record 'f env =
  uuid4 :: string
  gensalt :: string
  now :: "nat \<Rightarrow> 'f"
  new_product_id :: int

section \<open>The data model (models.py)\<close>

datatype UserRole = user | admin

fun UserRole_value :: "UserRole \<Rightarrow> int" where
  "UserRole_value user = 0"
| "UserRole_value admin = 1"

record User =
  user_id :: string
  user_name :: string
  phone :: string
  role :: int
  email :: string
  profile_picture :: "string option"
  hash :: string

text \<open>
  The column \<open>Product.user_id\<close> is the field \<open>product_user_id\<close>; it is a nullable
  VARCHAR, \<open>None\<close> being NULL.
\<close>

record 'f Product =
  product_id :: int
  product_name :: string
  picture :: string
  selling_price :: 'f
  description :: string
  available :: int
  product_user_id :: "string option"
  category_id :: int

text \<open>The tables, as rows in storage order.\<close>

record 'f db =
  users :: "User list"
  products :: "'f Product list"

definition opt_str :: "string option \<Rightarrow> 'f json" where
  "opt_str v = (case v of None \<Rightarrow> JNull | Some s \<Rightarrow> JStr s)"

definition User_to_dict :: "User \<Rightarrow> 'f dict" where
  "User_to_dict u =
     [(''user_id'', JStr (user_id u)),
      (''user_name'', JStr (user_name u)),
      (''phone'', JStr (phone u)),
      (''role'', JInt (role u)),
      (''email'', JStr (email u)),
      (''profile_picture'', opt_str (profile_picture u))]"

section \<open>The persistence layer\<close>

text \<open>\<open>db.session.get(User, key)\<close>: the row whose primary key equals the Python value.\<close>

definition get_User :: "'f json \<Rightarrow> 'f db \<Rightarrow> User option" where
  "get_User key st = find (\<lambda>u. JStr (user_id u) = key) (users st)"

text \<open>\<open>db.session.query(User).filter(column == v).first()\<close>.\<close>

definition first_User_by_email :: "string \<Rightarrow> 'f db \<Rightarrow> User option" where
  "first_User_by_email e st = find (\<lambda>u. email u = e) (users st)"

definition first_User_by_name :: "string \<Rightarrow> 'f db \<Rightarrow> User option" where
  "first_User_by_name n st = find (\<lambda>u. user_name u = n) (users st)"

text \<open>
  \<open>db.session.merge(user); db.session.commit()\<close> for the object \<open>register_route\<close> builds:
  every attribute but \<open>profile_picture\<close> is set on it. A row with the same primary key
  takes the set attributes and keeps its \<open>profile_picture\<close>; otherwise a row is inserted.
\<close>

definition merge_User :: "User \<Rightarrow> 'f db \<Rightarrow> 'f db" where
  "merge_User u st =
     (if user_id u \<in> set (map user_id (users st))
      then st\<lparr>users :=
             map (\<lambda>r. if user_id r = user_id u
                       then u\<lparr>profile_picture := profile_picture r\<rparr> else r) (users st)\<rparr>
      else st\<lparr>users := users st @ [u]\<rparr>)"

text \<open>
  What the columns hold. A BIGINT column holds a signed 64-bit integer: binding an integer
  outside that range raises. A VARCHAR column holds text or NULL: \<open>None\<close> is stored as
  NULL, a string as it is, a number as its text (a bool as the integer it is), and a list
  or a dict cannot be bound. \<open>store_VARCHAR\<close> gives the stored value, \<open>None\<close> when the
  statement raises.
\<close>

definition BIGINT :: "int \<Rightarrow> bool" where
  "BIGINT n = (- (2 ^ 63) \<le> n \<and> n < 2 ^ 63)"

definition digit :: "nat \<Rightarrow> char" where
  "digit n = ''0123456789'' ! n"

fun str_nat :: "nat \<Rightarrow> string" where
  "str_nat n = (if n < 10 then [digit n] else str_nat (n div 10) @ [digit (n mod 10)])"

declare str_nat.simps [simp del]

definition str_int :: "int \<Rightarrow> string" where
  "str_int n = (if n < 0 then CHR ''-'' # str_nat (nat (- n)) else str_nat (nat n))"

fun store_VARCHAR :: "'f ext \<Rightarrow> 'f json \<Rightarrow> string option option" where
  "store_VARCHAR x JNull = Some None"
| "store_VARCHAR x (JStr s) = Some (Some s)"
| "store_VARCHAR x (JInt n) = (if BIGINT n then Some (Some (str_int n)) else None)"
| "store_VARCHAR x (JBool b) = Some (Some (if b then ''1'' else ''0''))"
| "store_VARCHAR x (JFloat r) = Some (Some (float_str x r))"
| "store_VARCHAR x (JList l) = None"
| "store_VARCHAR x (JObj d) = None"

definition get_Product :: "int \<Rightarrow> 'f db \<Rightarrow> 'f Product option" where
  "get_Product key st = find (\<lambda>p. product_id p = key) (products st)"

text \<open>\<open>db.session.add(product); db.session.commit()\<close>: a new row.\<close>

definition add_Product :: "'f Product \<Rightarrow> 'f db \<Rightarrow> 'f db" where
  "add_Product p st = st\<lparr>products := products st @ [p]\<rparr>"

text \<open>\<open>db.session.merge(product); db.session.commit()\<close> for a row read in this request.\<close>

definition merge_Product :: "'f Product \<Rightarrow> 'f db \<Rightarrow> 'f db" where
  "merge_Product p st =
     (if product_id p \<in> set (map product_id (products st))
      then st\<lparr>products :=
             map (\<lambda>r. if product_id r = product_id p then p else r) (products st)\<rparr>
      else st\<lparr>products := products st @ [p]\<rparr>)"

definition delete_Product :: "'f Product \<Rightarrow> 'f db \<Rightarrow> 'f db" where
  "delete_Product p st =
     st\<lparr>products := filter (\<lambda>r. product_id r \<noteq> product_id p) (products st)\<rparr>"

section \<open>Python dictionaries and builtins\<close>

text \<open>\<open>d[k] = v\<close>: an existing key keeps its place, a new key goes last.\<close>

fun dict_set :: "string \<Rightarrow> 'v \<Rightarrow> (string \<times> 'v) list \<Rightarrow> (string \<times> 'v) list" where
  "dict_set k v [] = [(k, v)]"
| "dict_set k v ((k', v') # d) = (if k' = k then (k, v) # d else (k', v') # dict_set k v d)"

text \<open>\<open>{**d, **kwargs}\<close>: the entries of \<open>kwargs\<close> are stored one after the other.\<close>

definition dict_merge :: "(string \<times> 'v) list \<Rightarrow> (string \<times> 'v) list \<Rightarrow> (string \<times> 'v) list" where
  "dict_merge d kwargs = fold (\<lambda>(k, v). dict_set k v) kwargs d"

definition keys :: "(string \<times> 'v) list \<Rightarrow> string list" where
  "keys d = map fst d"

text \<open>\<open>int(x)\<close> and \<open>float(x)\<close> on a JSON value; \<open>None\<close> where Python raises.\<close>

fun py_int :: "'f ext \<Rightarrow> 'f json \<Rightarrow> int option" where
  "py_int x (JInt n) = Some n"
| "py_int x (JBool b) = Some (if b then 1 else 0)"
| "py_int x (JFloat r) = int_of_float x r"
| "py_int x (JStr s) = int_of_str x s"
| "py_int x _ = None"

fun py_float :: "'f ext \<Rightarrow> 'f json \<Rightarrow> 'f option" where
  "py_float x (JFloat r) = Some r"
| "py_float x (JInt n) = float_of_int x n"
| "py_float x (JBool b) = float_of_int x (if b then 1 else 0)"
| "py_float x (JStr s) = float_of_str x s"
| "py_float x _ = None"

text \<open>\<open>flask.request.json.copy()\<close>: only a dict and a list have the method.\<close>

fun json_copy :: "'f json \<Rightarrow> 'f json option" where
  "json_copy (JObj d) = Some (JObj d)"
| "json_copy (JList l) = Some (JList l)"
| "json_copy _ = None"

section \<open>Regular expressions of views.py\<close>

text \<open>
  \<open>re.match(r"Bearer (.*)", header)\<close>: the header starts with the seven characters
  \<open>Bearer \<close>; the group is what follows, up to the first line feed.
\<close>

definition bearer_match :: "string \<Rightarrow> string option" where
  "bearer_match header =
     (if take 7 header = ''Bearer ''
      then Some (takeWhile (\<lambda>c. c \<noteq> CHR 0x0A) (drop 7 header))
      else None)"

definition letters :: string where
  "letters = ''ABCDEFGHIJKLMNOPQRSTUVWXYZabcdefghijklmnopqrstuvwxyz''"

definition digits :: string where
  "digits = ''0123456789''"

text \<open>The three character classes of \<open>EMAIL_REGEX\<close>, and the word characters among them.\<close>

definition local_class :: "char set" where
  "local_class = set letters \<union> set digits \<union> set ''._%+-''"

definition domain_class :: "char set" where
  "domain_class = set letters \<union> set digits \<union> set ''.-''"

definition tld_class :: "char set" where
  "tld_class = set letters \<union> set ''|''"

definition word_char :: "char \<Rightarrow> bool" where
  "word_char c = (c \<in> set letters \<union> set digits \<union> set ''_'')"

text \<open>
  \<open>re.fullmatch(EMAIL_REGEX, s)\<close> with
  \<open>EMAIL_REGEX = \b[A-Za-z0-9._%+-]+@[A-Za-z0-9.-]+\.[A-Z|a-z]{2,}\b\<close>.
  No class contains \<open>@\<close>, so the string splits at its only \<open>@\<close>; the last class has no
  dot, so what follows the \<open>@\<close> splits at its last dot. \<open>\b\<close> at either end asks for a
  word character first and last.
\<close>

definition is_email :: "string \<Rightarrow> bool" where
  "is_email s =
     (let local = takeWhile (\<lambda>c. c \<noteq> CHR ''@'') s;
          rest = drop (length local + 1) s;
          tld = rev (takeWhile (\<lambda>c. c \<noteq> CHR ''.'') (rev rest));
          domain = take (length rest - length tld - 1) rest
      in length local < length s \<and> length tld < length rest
         \<and> local \<noteq> [] \<and> set local \<subseteq> local_class \<and> word_char (hd local)
         \<and> domain \<noteq> [] \<and> set domain \<subseteq> domain_class
         \<and> 2 \<le> length tld \<and> set tld \<subseteq> tld_class \<and> word_char (last tld))"

section \<open>The schema library, as views.py uses it\<close>

text \<open>
  The validators that occur in the four schemas: the type \<open>str\<close>, the callables \<open>len\<close>
  and \<open>is_email\<close>, \<open>Use(float)\<close>, \<open>Use(int)\<close> and \<open>lambda i: i >= 0\<close>. A validator
  returns the (possibly converted) value, or fails; a callable that raises fails.
\<close>

datatype validator = Str | Len | Is_email | Use_float | Use_int | Ge0

fun validate1 :: "'f ext \<Rightarrow> validator \<Rightarrow> 'f json \<Rightarrow> 'f json option" where
  "validate1 x Str (JStr s) = Some (JStr s)"
| "validate1 x Str _ = None"
| "validate1 x Len (JStr s) = (if s \<noteq> [] then Some (JStr s) else None)"
| "validate1 x Len (JList l) = (if l \<noteq> [] then Some (JList l) else None)"
| "validate1 x Len (JObj d) = (if d \<noteq> [] then Some (JObj d) else None)"
| "validate1 x Len _ = None"
| "validate1 x Is_email (JStr s) = (if is_email s then Some (JStr s) else None)"
| "validate1 x Is_email _ = None"
| "validate1 x Use_float v = map_option JFloat (py_float x v)"
| "validate1 x Use_int v = map_option JInt (py_int x v)"
| "validate1 x Ge0 (JInt n) = (if n \<ge> 0 then Some (JInt n) else None)"
| "validate1 x Ge0 (JFloat r) = (if float_ge0 x r then Some (JFloat r) else None)"
| "validate1 x Ge0 (JBool b) = Some (JBool b)"
| "validate1 x Ge0 _ = None"

text \<open>\<open>schema.And(v1, ..., vn)\<close>: each validator receives the result of the one before.\<close>

fun schema_And :: "'f ext \<Rightarrow> validator list \<Rightarrow> 'f json \<Rightarrow> 'f json option" where
  "schema_And x [] v = Some v"
| "schema_And x (c # cs) v =
     (case validate1 x c v of None \<Rightarrow> None | Some v' \<Rightarrow> schema_And x cs v')"

type_synonym dict_schema = "(string \<times> validator list) list"

text \<open>
  The loop of \<open>Schema.validate\<close> over the items of the data: a key the schema knows has
  its value validated, and the first failure is raised at once; a key it does not know
  is skipped and found at the end.
\<close>

fun validate_items :: "'f ext \<Rightarrow> dict_schema \<Rightarrow> 'f dict \<Rightarrow> schema_error + 'f dict" where
  "validate_items x sch [] = Inr []"
| "validate_items x sch ((k, v) # d) =
     (case map_of sch k of
        None \<Rightarrow> validate_items x sch d
      | Some cs \<Rightarrow>
          (case schema_And x cs v of
             None \<Rightarrow> Inl (KeyInvalid k)
           | Some v' \<Rightarrow>
               (case validate_items x sch d of
                  Inl e \<Rightarrow> Inl e
                | Inr new \<Rightarrow> Inr ((k, v') # new))))"

text \<open>
  \<open>schema.Schema({...}).validate(data)\<close>: the data is a dict; its values pass; no key of
  the schema is missing (none is optional); no other key is present.
\<close>

definition Schema_validate :: "'f ext \<Rightarrow> dict_schema \<Rightarrow> 'f json \<Rightarrow> schema_error + 'f dict" where
  "Schema_validate x sch data =
     (case data of
        JObj d \<Rightarrow>
          (case validate_items x sch d of
             Inl e \<Rightarrow> Inl e
           | Inr new \<Rightarrow>
               (let missing = filter (\<lambda>k. k \<notin> set (keys d)) (keys sch);
                    wrong = filter (\<lambda>k. k \<notin> set (keys sch)) (keys d)
                in if missing \<noteq> [] then Inl (MissingKeys missing)
                   else if wrong \<noteq> [] then Inl (WrongKeys wrong)
                   else Inr new))
      | _ \<Rightarrow> Inl NotADict)"

definition REGISTER_SCHEMA :: dict_schema where
  "REGISTER_SCHEMA =
     [(''user_name'', [Str, Len]),
      (''password'', [Str, Len]),
      (''phone'', [Str, Len]),
      (''email'', [Str, Len, Is_email])]"

definition LOGIN_SCHEMA :: dict_schema where
  "LOGIN_SCHEMA = [(''user_name'', [Str, Len]), (''password'', [Str, Len])]"

definition CREATE_PRODUCT_SCHEMA :: dict_schema where
  "CREATE_PRODUCT_SCHEMA =
     [(''product_name'', [Str, Len]),
      (''picture'', [Str, Len]),
      (''selling_price'', [Use_float, Ge0]),
      (''description'', [Str, Len]),
      (''category_id'', [Use_int, Ge0])]"

definition UPDATE_PRODUCT_SCHEMA :: dict_schema where
  "UPDATE_PRODUCT_SCHEMA =
     [(''product_id'', [Use_int, Ge0]),
      (''product_name'', [Str, Len]),
      (''picture'', [Str, Len]),
      (''selling_price'', [Use_float, Ge0]),
      (''description'', [Str, Len]),
      (''category_id'', [Use_int, Ge0])]"

section \<open>Requests and responses\<close>

text \<open>
  A request as the views read it: the \<open>Authorization\<close> header, when there is one, and
  \<open>flask.request.json\<close>.
\<close>

record 'f request =
  authorization :: "string option"
  json :: "'f json"

text \<open>A handler returns its response and the tables after it.\<close>

type_synonym 'f outcome = "'f result \<times> 'f db"

definition status_body :: "string \<Rightarrow> 'f json" where
  "status_body s = JObj [(''status'', JStr s)]"

definition bad_request :: "'f ext \<Rightarrow> schema_error \<Rightarrow> 'f json" where
  "bad_request x e = JObj [(''status'', JStr ''Bad request''), (''message'', JStr (error_str x e))]"

definition success :: "'f json" where
  "success = JObj [(''message'', JStr ''success'')]"

definition token_body :: "string \<Rightarrow> 'f json" where
  "token_body t = JObj [(''token'', JStr t)]"

text \<open>Reading a validated request: \<open>request[k]\<close> as the type the schema left there.\<close>

definition get_str :: "'f dict \<Rightarrow> string \<Rightarrow> string option" where
  "get_str d k = (case map_of d k of Some (JStr s) \<Rightarrow> Some s | _ \<Rightarrow> None)"

definition get_int :: "'f dict \<Rightarrow> string \<Rightarrow> int option" where
  "get_int d k = (case map_of d k of Some (JInt n) \<Rightarrow> Some n | _ \<Rightarrow> None)"

definition get_float :: "'f dict \<Rightarrow> string \<Rightarrow> 'f option" where
  "get_float d k = (case map_of d k of Some (JFloat r) \<Rightarrow> Some r | _ \<Rightarrow> None)"

section \<open>Tokens (views.py)\<close>

definition SECOND :: int where "SECOND = 1"
definition MINUTE :: int where "MINUTE = 60 * SECOND"
definition HOUR :: int where "HOUR = 60 * MINUTE"

text \<open>
  The dict \<open>create_token\<close> signs: \<open>{"iat": now(), "exp": now() + expires_in, **kwargs}\<close>.
  The clock is read twice, first for \<open>iat\<close>, then for \<open>exp\<close>.
\<close>

definition token_payload :: "'f ext \<Rightarrow> 'f env \<Rightarrow> int \<Rightarrow> 'f dict \<Rightarrow> 'f dict" where
  "token_payload x ev expires_in kwargs =
     dict_merge
       [(''iat'', JFloat (now ev 0)),
        (''exp'', JFloat (float_add_int x (now ev 1) expires_in))]
       kwargs"

definition create_token :: "'f ext \<Rightarrow> config \<Rightarrow> 'f env \<Rightarrow> int \<Rightarrow> 'f dict \<Rightarrow> string" where
  "create_token x cfg ev expires_in kwargs =
     jwt_encode x (token_payload x ev expires_in kwargs) (JWT_PRIVATE_KEY cfg) (JWT_ALGORITHM cfg)"

text \<open>
  The decorator. The wrapped function receives the claims, which the source passes in
  \<open>flask.g.token\<close>. Any exception of \<open>jwt.decode\<close> is caught.
\<close>

definition token_required ::
  "'f ext \<Rightarrow> config \<Rightarrow> ('f dict \<Rightarrow> 'f request \<Rightarrow> 'f db \<Rightarrow> 'f outcome) \<Rightarrow> 'f request \<Rightarrow> 'f db \<Rightarrow> 'f outcome" where
  "token_required x cfg f req st =
     (case authorization req of
        None \<Rightarrow> (Response 403 (status_body ''Forbidden''), st)
      | Some header \<Rightarrow>
          (case bearer_match header of
             None \<Rightarrow> (Response 403 (status_body ''Forbidden''), st)
           | Some token \<Rightarrow>
               (case jwt_decode x token (JWT_PUBLIC_KEY cfg) [JWT_ALGORITHM cfg] of
                  None \<Rightarrow> (Response 403 (status_body ''Forbidden''), st)
                | Some claims \<Rightarrow> f claims req st)))"

text \<open>
  The claims of an authenticated request: what the decorator hands to the wrapped
  function when it calls it, \<open>None\<close> when it answers 403 itself.
\<close>

definition verified_claims :: "'f ext \<Rightarrow> config \<Rightarrow> 'f request \<Rightarrow> 'f dict option" where
  "verified_claims x cfg req =
     (case authorization req of
        None \<Rightarrow> None
      | Some header \<Rightarrow>
          (case bearer_match header of
             None \<Rightarrow> None
           | Some token \<Rightarrow> jwt_decode x token (JWT_PUBLIC_KEY cfg) [JWT_ALGORITHM cfg]))"

section \<open>Registration and login (views.py)\<close>

definition register_route :: "'f ext \<Rightarrow> config \<Rightarrow> 'f env \<Rightarrow> 'f request \<Rightarrow> 'f db \<Rightarrow> 'f outcome" where
  "register_route x cfg ev req st =
     (case json req of
        JObj d \<Rightarrow>
          (case Schema_validate x REGISTER_SCHEMA (JObj d) of
             Inl e \<Rightarrow> (Response 400 (bad_request x e), st)
           | Inr request \<Rightarrow>
               (case (get_str request ''email'', get_str request ''user_name'',
                      get_str request ''password'', get_str request ''phone'') of
                  (Some em, Some name, Some password, Some ph) \<Rightarrow>
                    (if first_User_by_email em st \<noteq> None
                     then (Response 409 (status_body ''Email is already exsit''), st)
                     else
                       (case bcrypt_hashpw x password (gensalt ev) of
                          None \<Rightarrow> (Raised LibraryError, st)
                        | Some h \<Rightarrow>
                            (let u = \<lparr>user_id = uuid4 ev, user_name = name, phone = ph,
                                      role = UserRole_value user, email = em,
                                      profile_picture = None, hash = h\<rparr>;
                                 st' = merge_User u st
                             in case get_User (JStr (user_id u)) st' of
                                  None \<Rightarrow> (Raised AttributeError, st')
                                | Some u' \<Rightarrow>
                                    (Response 200
                                       (token_body (create_token x cfg ev HOUR (User_to_dict u'))),
                                     st'))))
                | _ \<Rightarrow> (Raised KeyError, st)))
      | _ \<Rightarrow> (Response 400 (status_body ''Bad request''), st))"

definition login_route :: "'f ext \<Rightarrow> config \<Rightarrow> 'f env \<Rightarrow> 'f request \<Rightarrow> 'f db \<Rightarrow> 'f outcome" where
  "login_route x cfg ev req st =
     (case json req of
        JObj d \<Rightarrow>
          (case Schema_validate x LOGIN_SCHEMA (JObj d) of
             Inl e \<Rightarrow> (Response 400 (bad_request x e), st)
           | Inr request \<Rightarrow>
               (case (get_str request ''user_name'', get_str request ''password'') of
                  (Some name, Some password) \<Rightarrow>
                    (case first_User_by_name name st of
                       None \<Rightarrow> (Response 401 (status_body ''Unauthorized''), st)
                     | Some u \<Rightarrow>
                         (case bcrypt_checkpw x password (hash u) of
                            None \<Rightarrow> (Raised LibraryError, st)
                          | Some ok \<Rightarrow>
                              (if \<not> ok
                               then (Response 401 (status_body ''Unauthorized''), st)
                               else (Response 200
                                       (token_body (create_token x cfg ev HOUR (User_to_dict u))),
                                     st))))
                | _ \<Rightarrow> (Raised KeyError, st)))
      | _ \<Rightarrow> (Response 400 (status_body ''Bad request''), st))"

text \<open>The body of \<open>current_user_route\<close>, and the route with its decorator.\<close>

definition current_user_body :: "'f dict \<Rightarrow> 'f request \<Rightarrow> 'f db \<Rightarrow> 'f outcome" where
  "current_user_body claims req st =
     (case map_of claims ''user_id'' of
        None \<Rightarrow> (Raised KeyError, st)
      | Some current_user_id \<Rightarrow>
          (case get_User current_user_id st of
             None \<Rightarrow> (Raised AttributeError, st)
           | Some current_user \<Rightarrow> (Response 200 (JObj (User_to_dict current_user)), st)))"

definition current_user_route :: "'f ext \<Rightarrow> config \<Rightarrow> 'f request \<Rightarrow> 'f db \<Rightarrow> 'f outcome" where
  "current_user_route x cfg = token_required x cfg current_user_body"

section \<open>Products (views.py)\<close>

text \<open>
  The body of \<open>create_product_route\<close>. The \<open>user_id\<close> claim is assigned unchecked; the
  commit stores it in the VARCHAR column and \<open>category_id\<close> in a BIGINT column, and raises
  when one of them cannot be stored. Nothing is written then.
\<close>

definition create_product_body :: "'f ext \<Rightarrow> 'f env \<Rightarrow> 'f dict \<Rightarrow> 'f request \<Rightarrow> 'f db \<Rightarrow> 'f outcome" where
  "create_product_body x ev claims req st =
     (case json_copy (json req) of
        None \<Rightarrow> (Raised AttributeError, st)
      | Some data \<Rightarrow>
          (case Schema_validate x CREATE_PRODUCT_SCHEMA data of
             Inl e \<Rightarrow> (Response 400 (bad_request x e), st)
           | Inr request \<Rightarrow>
               (case (get_str request ''product_name'', get_str request ''picture'',
                      get_float request ''selling_price'', get_str request ''description'',
                      get_int request ''category_id'') of
                  (Some name, Some pic, Some price, Some descr, Some cat) \<Rightarrow>
                    (case map_of claims ''user_id'' of
                       None \<Rightarrow> (Raised KeyError, st)
                     | Some current_user_id \<Rightarrow>
                         (case store_VARCHAR x current_user_id of
                            None \<Rightarrow> (Raised StorageError, st)
                          | Some owner \<Rightarrow>
                              (if \<not> BIGINT cat then (Raised StorageError, st)
                               else (Response 200 success,
                                     add_Product
                                       \<lparr>product_id = new_product_id ev, product_name = name,
                                        picture = pic, selling_price = price,
                                        description = descr, available = 0,
                                        product_user_id = owner, category_id = cat\<rparr> st))))
                | _ \<Rightarrow> (Raised KeyError, st))))"

definition create_product_route :: "'f ext \<Rightarrow> config \<Rightarrow> 'f env \<Rightarrow> 'f request \<Rightarrow> 'f db \<Rightarrow> 'f outcome" where
  "create_product_route x cfg ev = token_required x cfg (create_product_body x ev)"

text \<open>One round of the loop \<open>for k in request\<close> of \<open>update_product_route\<close>.\<close>

definition update_field :: "'f dict \<Rightarrow> string \<Rightarrow> 'f Product \<Rightarrow> 'f Product" where
  "update_field request k product =
     (if k = ''product_name'' then
        (case get_str request ''product_name'' of
           Some v \<Rightarrow> product\<lparr>product_name := v\<rparr> | None \<Rightarrow> product)
      else if k = ''picture'' then
        (case get_str request ''picture'' of
           Some v \<Rightarrow> product\<lparr>picture := v\<rparr> | None \<Rightarrow> product)
      else if k = ''selling_price'' then
        (case get_float request ''selling_price'' of
           Some v \<Rightarrow> product\<lparr>selling_price := v\<rparr> | None \<Rightarrow> product)
      else if k = ''description'' then
        (case get_str request ''description'' of
           Some v \<Rightarrow> product\<lparr>description := v\<rparr> | None \<Rightarrow> product)
      else if k = ''category_id'' then
        (case get_int request ''category_id'' of
           Some v \<Rightarrow> product\<lparr>category_id := v\<rparr> | None \<Rightarrow> product)
      else product)"

definition update_fields :: "'f dict \<Rightarrow> 'f Product \<Rightarrow> 'f Product" where
  "update_fields request product = fold (update_field request) (keys request) product"

text \<open>
  The body of \<open>update_product_route\<close>. \<open>db.session.get\<close> binds \<open>product_id\<close> and raises
  when it is no BIGINT; the commit raises when the new \<open>category_id\<close> is none, and
  nothing is written then.
\<close>

definition update_product_body :: "'f ext \<Rightarrow> 'f dict \<Rightarrow> 'f request \<Rightarrow> 'f db \<Rightarrow> 'f outcome" where
  "update_product_body x claims req st =
     (case json_copy (json req) of
        None \<Rightarrow> (Raised AttributeError, st)
      | Some data \<Rightarrow>
          (case Schema_validate x UPDATE_PRODUCT_SCHEMA data of
             Inl e \<Rightarrow> (Response 400 (bad_request x e), st)
           | Inr request \<Rightarrow>
               (case map_of claims ''user_id'' of
                  None \<Rightarrow> (Raised KeyError, st)
                | Some current_user_id \<Rightarrow>
                    (case get_int request ''product_id'' of
                       None \<Rightarrow> (Raised KeyError, st)
                     | Some pid \<Rightarrow>
                         (if \<not> BIGINT pid then (Raised StorageError, st)
                          else
                            (case get_Product pid st of
                               None \<Rightarrow> (Response 404 (status_body ''Not Found''), st)
                             | Some product \<Rightarrow>
                                 (if opt_str (product_user_id product) \<noteq> current_user_id
                                  then (Response 401 (status_body ''Permission denied''), st)
                                  else if \<not> BIGINT (category_id (update_fields request product))
                                  then (Raised StorageError, st)
                                  else (Response 200 success,
                                        merge_Product (update_fields request product) st))))))))"

definition update_product_route :: "'f ext \<Rightarrow> config \<Rightarrow> 'f request \<Rightarrow> 'f db \<Rightarrow> 'f outcome" where
  "update_product_route x cfg = token_required x cfg (update_product_body x)"

text \<open>
  The body of \<open>delete_product_route\<close>. The path segment \<open>product_id\<close> is taken as the
  BIGINT key the storage layer reads it as.
\<close>

definition delete_product_body :: "int \<Rightarrow> 'f dict \<Rightarrow> 'f request \<Rightarrow> 'f db \<Rightarrow> 'f outcome" where
  "delete_product_body pid claims req st =
     (case get_Product pid st of
        None \<Rightarrow> (Response 404 (status_body ''Not Found''), st)
      | Some product \<Rightarrow>
          (case map_of claims ''user_id'' of
             None \<Rightarrow> (Raised KeyError, st)
           | Some current_user_id \<Rightarrow>
               (if opt_str (product_user_id product) \<noteq> current_user_id
                then (Response 401 (status_body ''Permission denied''), st)
                else (Response 200 success, delete_Product product st))))"

definition delete_product_route :: "'f ext \<Rightarrow> config \<Rightarrow> int \<Rightarrow> 'f request \<Rightarrow> 'f db \<Rightarrow> 'f outcome" where
  "delete_product_route x cfg pid = token_required x cfg (delete_product_body pid)"

section \<open>A small installation\<close>

text \<open>
  Concrete libraries, configuration and tables on which the routes can be run. Floats are
  rationals here. The toy token codec knows one token for each of two users, and the toy
  conversions read no number out of a string.

  A string is the list of the bytes of its UTF-8 encoding. A lone surrogate, which a JSON
  body can carry as \<open>\ud800\<close>, has no such encoding and \<open>encode()\<close> raises on it; here
  it is the three bytes \<open>ED A0 80\<close> to \<open>ED BF BF\<close>. The toy bcrypt refuses a password
  that holds one, and a stored hash it did not make.
\<close>

fun encodable :: "string \<Rightarrow> bool" where
  "encodable (a # b # s) =
     (\<not> (a = CHR 0xED \<and> (160 :: nat) \<le> of_char b \<and> of_char b \<le> (191 :: nat))
      \<and> encodable (b # s))"
| "encodable s = True"

definition alice :: User where
  "alice = \<lparr>user_id = ''u-alice'', user_name = ''alice'', phone = ''555'', role = 0,
            email = ''a@b.com'', profile_picture = None, hash = ''H:pw123456''\<rparr>"

definition bob :: User where
  "bob = \<lparr>user_id = ''u-bob'', user_name = ''bob'', phone = ''777'', role = 0,
          email = ''bob@shop.org'', profile_picture = Some ''bob.png'', hash = ''H:hunter22''\<rparr>"

definition lamp :: "rat Product" where
  "lamp = \<lparr>product_id = 1, product_name = ''lamp'', picture = ''lamp.png'',
           selling_price = 10, description = ''a lamp'', available = 0,
           product_user_id = Some ''u-alice'', category_id = 2\<rparr>"

definition shop :: "rat db" where
  "shop = \<lparr>users = [alice, bob], products = [lamp]\<rparr>"

definition lib :: "rat ext" where
  "lib = \<lparr>int_of_str = (\<lambda>s. None),
          int_of_float = (\<lambda>r. Some (if r < 0 then - \<lfloor>- r\<rfloor> else \<lfloor>r\<rfloor>)),
          float_of_str = (\<lambda>s. None),
          float_of_int = (\<lambda>n. Some (of_int n)),
          float_ge0 = (\<lambda>r. 0 \<le> r),
          float_add_int = (\<lambda>r n. r + of_int n),
          float_str = (\<lambda>r. str_int \<lfloor>r\<rfloor> @ ''.0''),
          bcrypt_hashpw = (\<lambda>pw salt. if encodable pw then Some (''H:'' @ pw) else None),
          bcrypt_checkpw = (\<lambda>pw h.
             if encodable pw \<and> take 2 h = ''H:'' then Some (h = ''H:'' @ pw) else None),
          jwt_encode = (\<lambda>payload key alg. ''signed''),
          jwt_decode = (\<lambda>t key algs.
             if t = ''alice-token'' then Some (User_to_dict alice)
             else if t = ''bob-token'' then Some (User_to_dict bob)
             else None),
          error_str = (\<lambda>e. ''invalid'')\<rparr>"

definition conf :: config where
  "conf = \<lparr>JWT_PRIVATE_KEY = ''private'', JWT_PUBLIC_KEY = ''public'', JWT_ALGORITHM = ''RS256''\<rparr>"

definition surroundings :: "rat env" where
  "surroundings = \<lparr>uuid4 = ''u-new'', gensalt = ''salt'',
                   now = (\<lambda>k. if k = 0 then 1700000000 else 1700000000 + 1 / 1000000), new_product_id = 2\<rparr>"

text \<open>A body for \<open>PUT /product\<close> and what the schema makes of it; a second registration.\<close>

definition lamp_update :: "rat json" where
  "lamp_update =
     JObj [(''product_id'', JInt 1), (''product_name'', JStr ''desk lamp''),
           (''picture'', JStr ''desk.png''), (''selling_price'', JInt 12),
           (''description'', JStr ''a desk lamp''), (''category_id'', JInt 3)]"

definition lamp_validated :: "rat dict" where
  "lamp_validated =
     [(''product_id'', JInt 1), (''product_name'', JStr ''desk lamp''),
      (''picture'', JStr ''desk.png''), (''selling_price'', JFloat 12),
      (''description'', JStr ''a desk lamp''), (''category_id'', JInt 3)]"

definition alice_again :: "rat request" where
  "alice_again =
     \<lparr>authorization = None,
      json = JObj [(''user_name'', JStr ''alice2''), (''password'', JStr ''other''),
                   (''phone'', JStr ''999''), (''email'', JStr ''a@b.com'')]\<rparr>"

text \<open>
  A body that asks for a category beyond the BIGINT range, the body of a product and the
  row it becomes, and a password that is one lone surrogate.
\<close>

definition lamp_far :: "rat json" where
  "lamp_far =
     JObj [(''product_id'', JInt 1), (''product_name'', JStr ''desk lamp''),
           (''picture'', JStr ''desk.png''), (''selling_price'', JInt 12),
           (''description'', JStr ''a desk lamp''),
           (''category_id'', JInt 9223372036854775808)]"

definition lone_surrogate :: string where
  "lone_surrogate = [CHR 0xED, CHR 0xA0, CHR 0x80]"

text \<open>
  The registration of the specification's example into empty tables and the row it
  leaves; a registration that tries to choose its role and id; a product to create.
\<close>

definition alice_registers :: "rat request" where
  "alice_registers =
     \<lparr>authorization = None,
      json = JObj [(''user_name'', JStr ''alice''), (''password'', JStr ''pw123456''),
                   (''phone'', JStr ''555''), (''email'', JStr ''a@b.com'')]\<rparr>"

definition newcomer :: User where
  "newcomer = \<lparr>user_id = ''u-new'', user_name = ''alice'', phone = ''555'', role = 0,
               email = ''a@b.com'', profile_picture = None, hash = ''H:pw123456''\<rparr>"

definition empty_shop :: "rat db" where
  "empty_shop = \<lparr>users = [], products = []\<rparr>"

definition chair_body :: "rat json" where
  "chair_body =
     JObj [(''product_name'', JStr ''chair''), (''picture'', JStr ''chair.png''),
           (''selling_price'', JInt 30), (''description'', JStr ''a chair''),
           (''category_id'', JInt 4)]"

definition chair :: "rat Product" where
  "chair = \<lparr>product_id = 2, product_name = ''chair'', picture = ''chair.png'',
            selling_price = 30, description = ''a chair'', available = 0,
            product_user_id = Some ''u-bob'', category_id = 4\<rparr>"

definition alice_admin :: "rat request" where
  "alice_admin =
     \<lparr>authorization = None,
      json = JObj [(''user_name'', JStr ''alice''), (''password'', JStr ''pw123456''),
                   (''phone'', JStr ''555''), (''email'', JStr ''a@b.com''),
                   (''role'', JInt 1), (''user_id'', JStr ''u-bob'')]\<rparr>"

section \<open>The decorator and the schemas: basic facts\<close>

lemma token_required_verified:
  "token_required x cfg f req st =
     (case verified_claims x cfg req of
        None \<Rightarrow> (Response 403 (status_body ''Forbidden''), st)
      | Some claims \<Rightarrow> f claims req st)"
  by (simp add: token_required_def verified_claims_def split: option.splits)

lemma validate_items_lookup:
  "validate_items x sch d = Inr new \<Longrightarrow> k \<in> set (keys d) \<Longrightarrow> map_of sch k = Some cs \<Longrightarrow>
   \<exists>v v'. map_of d k = Some v \<and> schema_And x cs v = Some v' \<and> map_of new k = Some v'"
proof (induction d arbitrary: new)
  case Nil
  then show ?case by (simp add: keys_def)
next
  case (Cons kv d)
  obtain k0 v0 where kv: "kv = (k0, v0)" by (cases kv)
  show ?case
  proof (cases "k0 = k")
    case True
    with Cons.prems kv show ?thesis
      by (auto split: option.splits sum.splits)
  next
    case False
    with Cons.prems kv have kd: "k \<in> set (keys d)" by (simp add: keys_def)
    show ?thesis
    proof (cases "map_of sch k0")
      case None
      with Cons.prems kv have "validate_items x sch d = Inr new" by simp
      from Cons.IH[OF this kd Cons.prems(3)] False kv show ?thesis by simp
    next
      case (Some cs0)
      with Cons.prems kv obtain v0' new' where
        "schema_And x cs0 v0 = Some v0'" "validate_items x sch d = Inr new'" "new = (k0, v0') # new'"
        by (auto split: option.splits sum.splits)
      from Cons.IH[OF this(2) kd Cons.prems(3)] False kv this(3) show ?thesis by simp
    qed
  qed
qed

lemma Schema_validate_InrD:
  assumes "Schema_validate x sch data = Inr new"
  shows "\<exists>d. data = JObj d \<and> validate_items x sch d = Inr new
             \<and> set (keys sch) \<subseteq> set (keys d) \<and> set (keys d) \<subseteq> set (keys sch)"
proof (cases data)
  case (JObj d)
  with assms have vi: "validate_items x sch d = Inr new"
    and m: "filter (\<lambda>k. k \<notin> set (keys d)) (keys sch) = []"
    and w: "filter (\<lambda>k. k \<notin> set (keys sch)) (keys d) = []"
    by (auto simp: Schema_validate_def Let_def split: sum.splits if_splits)
  from m have "set (keys sch) \<subseteq> set (keys d)" by (auto simp: filter_empty_conv)
  moreover from w have "set (keys d) \<subseteq> set (keys sch)" by (auto simp: filter_empty_conv)
  ultimately show ?thesis using JObj vi by simp
qed (use assms in \<open>simp_all add: Schema_validate_def\<close>)

lemma Schema_validate_key:
  assumes "Schema_validate x sch data = Inr new" and "map_of sch k = Some cs"
  shows "\<exists>v v'. schema_And x cs v = Some v' \<and> map_of new k = Some v'"
proof -
  from Schema_validate_InrD[OF assms(1)] obtain d where
    d: "validate_items x sch d = Inr new" "set (keys sch) \<subseteq> set (keys d)" by blast
  from assms(2) have "k \<in> set (keys sch)"
    by (auto simp: keys_def dest: map_of_SomeD intro: rev_image_eqI)
  with d(2) have "k \<in> set (keys d)" by blast
  from validate_items_lookup[OF d(1) this assms(2)] show ?thesis by blast
qed

lemma And_Str_Len: "schema_And x [Str, Len] v = Some v' \<Longrightarrow> \<exists>s. v' = JStr s \<and> s \<noteq> []"
  by (cases v) (auto split: if_splits)

lemma And_Str_Len_Email: "schema_And x [Str, Len, Is_email] v = Some v' \<Longrightarrow> \<exists>s. v' = JStr s \<and> is_email s"
  by (cases v) (auto split: if_splits)

lemma And_Use_int: "schema_And x [Use_int, Ge0] v = Some v' \<Longrightarrow> \<exists>n. v' = JInt n \<and> 0 \<le> n"
  by (auto split: option.splits if_splits)

lemma And_Use_float: "schema_And x [Use_float, Ge0] v = Some v' \<Longrightarrow> \<exists>r. v' = JFloat r \<and> float_ge0 x r"
  by (auto split: option.splits if_splits)

lemma Schema_validate_str:
  assumes "Schema_validate x sch data = Inr request"
    and "map_of sch k = Some [Str, Len] \<or> map_of sch k = Some [Str, Len, Is_email]"
  shows "\<exists>s. get_str request k = Some s"
proof -
  from assms(2) obtain cs where cs: "map_of sch k = Some cs" "cs = [Str, Len] \<or> cs = [Str, Len, Is_email]"
    by blast
  from Schema_validate_key[OF assms(1) cs(1)] obtain v v' where
    v: "schema_And x cs v = Some v'" "map_of request k = Some v'" by blast
  from cs(2) v(1) obtain s where "v' = JStr s"
    using And_Str_Len And_Str_Len_Email by blast
  with v(2) show ?thesis by (simp add: get_str_def)
qed

lemma Schema_validate_int:
  assumes "Schema_validate x sch data = Inr request" and "map_of sch k = Some [Use_int, Ge0]"
  shows "\<exists>n. get_int request k = Some n"
proof -
  from Schema_validate_key[OF assms] obtain v v' where
    v: "schema_And x [Use_int, Ge0] v = Some v'" "map_of request k = Some v'" by blast
  from And_Use_int[OF v(1)] v(2) show ?thesis by (auto simp: get_int_def)
qed

lemma Schema_validate_copy:
  "Schema_validate x sch data = Inr request \<Longrightarrow> json_copy data = Some data"
  by (cases data) (simp_all add: Schema_validate_def)

lemma REGISTER_SCHEMA_fields:
  assumes "Schema_validate x REGISTER_SCHEMA data = Inr request"
  shows "\<exists>em name password ph.
           get_str request ''email'' = Some em \<and> get_str request ''user_name'' = Some name
           \<and> get_str request ''password'' = Some password \<and> get_str request ''phone'' = Some ph"
  using Schema_validate_str[OF assms, of "''email''"] Schema_validate_str[OF assms, of "''user_name''"]
    Schema_validate_str[OF assms, of "''password''"] Schema_validate_str[OF assms, of "''phone''"]
  by (simp add: REGISTER_SCHEMA_def)

lemma LOGIN_SCHEMA_fields:
  assumes "Schema_validate x LOGIN_SCHEMA data = Inr request"
  shows "\<exists>name password.
           get_str request ''user_name'' = Some name \<and> get_str request ''password'' = Some password"
  using Schema_validate_str[OF assms, of "''user_name''"] Schema_validate_str[OF assms, of "''password''"]
  by (simp add: LOGIN_SCHEMA_def)

lemma UPDATE_PRODUCT_SCHEMA_product_id:
  assumes "Schema_validate x UPDATE_PRODUCT_SCHEMA data = Inr request"
  shows "\<exists>pid. get_int request ''product_id'' = Some pid"
  using Schema_validate_int[OF assms, of "''product_id''"]
  by (simp add: UPDATE_PRODUCT_SCHEMA_def)

section \<open>Tokens, registration and the tables: basic facts\<close>

lemma token_payload_User:
  "token_payload x ev expires_in (User_to_dict u) =
     [(''iat'', JFloat (now ev 0)), (''exp'', JFloat (float_add_int x (now ev 1) expires_in))]
     @ User_to_dict u"
  by (simp add: token_payload_def dict_merge_def User_to_dict_def)

lemma register_route_200:
  assumes "register_route x cfg ev req st = (Response 200 body, st')"
  shows "\<exists>name ph em h u'.
           st' = merge_User \<lparr>user_id = uuid4 ev, user_name = name, phone = ph,
                              role = UserRole_value user, email = em,
                              profile_picture = None, hash = h\<rparr> st
           \<and> get_User (JStr (uuid4 ev)) st' = Some u'
           \<and> body = token_body (create_token x cfg ev HOUR (User_to_dict u'))"
  using assms
  by (auto simp: register_route_def Let_def
      split: json.splits sum.splits option.splits if_splits)

lemma login_route_200:
  assumes "login_route x cfg ev req st = (Response 200 body, st')"
  shows "\<exists>name u. first_User_by_name name st = Some u \<and> st' = st
           \<and> body = token_body (create_token x cfg ev HOUR (User_to_dict u))"
  using assms
  by (auto simp: login_route_def
      split: json.splits sum.splits option.splits if_splits)

lemma first_User_by_name_mem: "first_User_by_name name st = Some u \<Longrightarrow> u \<in> set (users st)"
  by (auto simp: first_User_by_name_def find_Some_iff)

lemma get_User_mem: "get_User key st = Some u \<Longrightarrow> u \<in> set (users st) \<and> key = JStr (user_id u)"
  by (auto simp: get_User_def find_Some_iff)

lemma get_User_merge_User:
  assumes "get_User (JStr (user_id r)) (merge_User r st) = Some u"
  shows "user_id u = user_id r \<and> role u = role r"
proof -
  from get_User_mem [OF assms] have mem: "u \<in> set (users (merge_User r st))"
    and uid: "user_id u = user_id r" by auto
  show ?thesis
  proof (cases "user_id r \<in> set (map user_id (users st))")
    case True
    with mem obtain r0 where "r0 \<in> set (users st)"
      "u = (if user_id r0 = user_id r then r\<lparr>profile_picture := profile_picture r0\<rparr> else r0)"
      by (auto simp: merge_User_def)
    with uid show ?thesis by (auto split: if_splits)
  next
    case False
    with mem have "u \<in> set (users st) \<or> u = r" by (auto simp: merge_User_def)
    moreover from False uid have "u \<notin> set (users st)" by (auto simp: image_iff)
    ultimately show ?thesis by simp
  qed
qed

lemma Schema_validate_extra_key:
  assumes "k \<in> set (keys d)" and "k \<notin> set (keys sch)"
  shows "\<exists>e. Schema_validate x sch (JObj d) = Inl e"
proof (cases "validate_items x sch d")
  case (Inl e)
  then show ?thesis by (simp add: Schema_validate_def)
next
  case (Inr new)
  from assms have "filter (\<lambda>k. k \<notin> set (keys sch)) (keys d) \<noteq> []"
    by (auto simp: filter_empty_conv)
  with Inr show ?thesis by (simp add: Schema_validate_def Let_def)
qed

lemma Schema_validate_missing_key:
  assumes "k \<in> set (keys sch)" and "k \<notin> set (keys d)"
  shows "\<exists>e. Schema_validate x sch (JObj d) = Inl e"
proof (cases "validate_items x sch d")
  case (Inl e)
  then show ?thesis by (simp add: Schema_validate_def)
next
  case (Inr new)
  from assms have "filter (\<lambda>k. k \<notin> set (keys d)) (keys sch) \<noteq> []"
    by (auto simp: filter_empty_conv)
  with Inr show ?thesis by (simp add: Schema_validate_def Let_def)
qed

lemma update_product_body_missing_key:
  assumes "json req = JObj d" and "k \<in> set (keys UPDATE_PRODUCT_SCHEMA)" and "k \<notin> set (keys d)"
  shows "\<exists>e. update_product_body x claims req st = (Response 400 (bad_request x e), st)"
proof -
  from Schema_validate_missing_key [OF assms(2,3)] obtain e where
    "Schema_validate x UPDATE_PRODUCT_SCHEMA (JObj d) = Inl e" by blast
  with assms(1) have "update_product_body x claims req st = (Response 400 (bad_request x e), st)"
    by (simp add: update_product_body_def)
  then show ?thesis by blast
qed

section \<open>The small installation: basic facts\<close>

lemma lamp_update_valid:
  "Schema_validate lib UPDATE_PRODUCT_SCHEMA lamp_update = Inr lamp_validated"
  by (simp add: Schema_validate_def UPDATE_PRODUCT_SCHEMA_def lamp_update_def lamp_validated_def
      keys_def lib_def)

lemma alice_verified:
  "verified_claims lib conf \<lparr>authorization = Some ''Bearer alice-token'', json = b\<rparr>
     = Some (User_to_dict alice)"
  by (simp add: verified_claims_def bearer_match_def lib_def)

lemma bob_verified:
  "verified_claims lib conf \<lparr>authorization = Some ''Bearer bob-token'', json = b\<rparr>
     = Some (User_to_dict bob)"
  by (simp add: verified_claims_def bearer_match_def lib_def)

lemma alice_id: "map_of (User_to_dict alice :: rat dict) ''user_id'' = Some (JStr ''u-alice'')"
  by (simp add: User_to_dict_def alice_def)

lemma bob_id: "map_of (User_to_dict bob :: rat dict) ''user_id'' = Some (JStr ''u-bob'')"
  by (simp add: User_to_dict_def bob_def)

lemma shop_lamp: "get_Product 1 shop = Some lamp"
  by (simp add: get_Product_def shop_def lamp_def)

lemma is_email_ab: "is_email ''a@b.com''"
  by (simp add: is_email_def local_class_def domain_class_def tld_class_def word_char_def
      letters_def digits_def)

lemma alice_registers_ok:
  "register_route lib conf surroundings alice_registers empty_shop
     = (Response 200 (token_body ''signed''), \<lparr>users = [newcomer], products = []\<rparr>)"
  by (simp add: register_route_def alice_registers_def Schema_validate_def REGISTER_SCHEMA_def
      keys_def is_email_ab get_str_def first_User_by_email_def empty_shop_def lib_def
      surroundings_def merge_User_def get_User_def create_token_def newcomer_def Let_def)

section \<open>The access guard\<close>

text \<open>
  Claim C2. A request to a function wrapped by \<open>token_required\<close> whose \<open>Authorization\<close>
  header is absent, or does not match \<open>Bearer <token>\<close>, or carries an empty token, or
  carries a token that \<open>jwt.decode\<close> rejects, is answered with status 403 and the body
  \<open>{"status": "Forbidden"}\<close>, and the wrapped function is not called: the outcome is
  the same whatever the wrapped function \<open>f\<close> is, and the tables are those before the
  request. The source has no test of its own for the empty token: it is rejected because
  \<open>jwt.decode\<close> raises on it, which is the third case of the hypothesis.
\<close>

theorem token_required_forbidden:
  assumes "authorization req = None
     \<or> (\<exists>header. authorization req = Some header \<and> bearer_match header = None)
     \<or> (\<exists>header. authorization req = Some header \<and> bearer_match header = Some []
            \<and> jwt_decode x [] (JWT_PUBLIC_KEY cfg) [JWT_ALGORITHM cfg] = None)
     \<or> (\<exists>header token. authorization req = Some header \<and> bearer_match header = Some token
            \<and> jwt_decode x token (JWT_PUBLIC_KEY cfg) [JWT_ALGORITHM cfg] = None)"
  shows "\<forall>f. token_required x cfg f req st = (Response 403 (status_body ''Forbidden''), st)"
  using assms by (auto simp: token_required_def)

theorem token_required_forbidden_witness:
  "token_required lib conf (delete_product_body 1) \<lparr>authorization = None, json = JNull\<rparr> shop
     = (Response 403 (status_body ''Forbidden''), shop)
   \<and> token_required lib conf (delete_product_body 1)
        \<lparr>authorization = Some ''alice-token'', json = JNull\<rparr> shop
     = (Response 403 (status_body ''Forbidden''), shop)
   \<and> token_required lib conf (delete_product_body 1)
        \<lparr>authorization = Some ''Bearer '', json = JNull\<rparr> shop
     = (Response 403 (status_body ''Forbidden''), shop)
   \<and> token_required lib conf (delete_product_body 1)
        \<lparr>authorization = Some ''Bearer carol-token'', json = JNull\<rparr> shop
     = (Response 403 (status_body ''Forbidden''), shop)"
  using token_required_forbidden [of "\<lparr>authorization = None, json = JNull\<rparr>" lib conf shop]
    token_required_forbidden [of "\<lparr>authorization = Some ''alice-token'', json = JNull\<rparr>" lib conf shop]
    token_required_forbidden [of "\<lparr>authorization = Some ''Bearer '', json = JNull\<rparr>" lib conf shop]
    token_required_forbidden [of "\<lparr>authorization = Some ''Bearer carol-token'', json = JNull\<rparr>" lib conf shop]
  by (simp add: bearer_match_def lib_def)

section \<open>The current identity\<close>

text \<open>
  Claim C10. For an authenticated request whose claims carry a \<open>user_id\<close>,
  \<open>current_user_route\<close> answers 200 with the public fields of the user (the key
  \<open>hash\<close> is not among them) exactly when the tables hold a user with that id; when
  they hold none, \<open>db.session.get\<close> returns \<open>None\<close>, \<open>to_dict\<close> is called on it and
  the handler ends with an uncaught \<open>AttributeError\<close> instead of a response.
\<close>

theorem current_user_needs_record:
  assumes "verified_claims x cfg req = Some claims"
    and "map_of claims ''user_id'' = Some current_user_id"
  shows "current_user_route x cfg req st =
           (case get_User current_user_id st of
              Some current_user \<Rightarrow> (Response 200 (JObj (User_to_dict current_user)), st)
            | None \<Rightarrow> (Raised AttributeError, st))
         \<and> (\<forall>u. ''hash'' \<notin> set (keys (User_to_dict u :: 'f dict)))"
  using assms
  by (simp add: current_user_route_def token_required_verified current_user_body_def
      User_to_dict_def keys_def split: option.splits)

theorem current_user_needs_record_witness:
  "current_user_route lib conf \<lparr>authorization = Some ''Bearer bob-token'', json = JNull\<rparr> shop
     = (Response 200 (JObj (User_to_dict bob)), shop)
   \<and> current_user_route lib conf \<lparr>authorization = Some ''Bearer bob-token'', json = JNull\<rparr>
        \<lparr>users = [alice], products = []\<rparr>
     = (Raised AttributeError, \<lparr>users = [alice], products = []\<rparr>)"
proof -
  let ?req = "\<lparr>authorization = Some ''Bearer bob-token'', json = JNull\<rparr> :: rat request"
  have auth: "verified_claims lib conf ?req = Some (User_to_dict bob)"
    by (simp add: verified_claims_def bearer_match_def lib_def)
  have uid: "map_of (User_to_dict bob :: rat dict) ''user_id'' = Some (JStr ''u-bob'')"
    by (simp add: User_to_dict_def bob_def)
  have there: "get_User (JStr ''u-bob'') shop = Some bob"
    by (simp add: get_User_def shop_def alice_def bob_def)
  have gone: "get_User (JStr ''u-bob'' :: rat json) \<lparr>users = [alice], products = []\<rparr> = None"
    by (simp add: get_User_def alice_def)
  from current_user_needs_record [OF auth uid, of shop]
    current_user_needs_record [OF auth uid, of "\<lparr>users = [alice], products = []\<rparr>"]
  show ?thesis unfolding there gone option.case by blast
qed

section \<open>Ownership of products\<close>

text \<open>
  What the two handlers do with a request that reaches the comparison of owners: a
  \<open>PUT /product\<close> whose body passes the schema and names an existing product, and a
  \<open>DELETE /product/{id}\<close> of an existing product.
\<close>

lemma owner_check_complete_body:
  assumes "verified_claims x cfg req = Some claims"
    and "map_of claims ''user_id'' = Some requester"
    and "Schema_validate x UPDATE_PRODUCT_SCHEMA (json req) = Inr request"
    and "get_int request ''product_id'' = Some pid"
    and "BIGINT pid"
    and "get_Product pid st = Some product"
    and "verified_claims x cfg req' = Some claims'"
    and "map_of claims' ''user_id'' = Some requester'"
    and "get_Product pid' st = Some product'"
  shows "update_product_route x cfg req st =
           (if opt_str (product_user_id product) \<noteq> requester
            then (Response 401 (status_body ''Permission denied''), st)
            else if \<not> BIGINT (category_id (update_fields request product))
            then (Raised StorageError, st)
            else (Response 200 success, merge_Product (update_fields request product) st))
         \<and> delete_product_route x cfg pid' req' st =
           (if opt_str (product_user_id product') \<noteq> requester'
            then (Response 401 (status_body ''Permission denied''), st)
            else (Response 200 success, delete_Product product' st))"
proof -
  have "json_copy (json req) = Some (json req)"
    using assms(3) by (rule Schema_validate_copy)
  with assms(1-6) have "update_product_route x cfg req st =
           (if opt_str (product_user_id product) \<noteq> requester
            then (Response 401 (status_body ''Permission denied''), st)
            else if \<not> BIGINT (category_id (update_fields request product))
            then (Raised StorageError, st)
            else (Response 200 success, merge_Product (update_fields request product) st))"
    by (simp add: update_product_route_def token_required_verified update_product_body_def)
  moreover from assms(7-9) have "delete_product_route x cfg pid' req' st =
           (if opt_str (product_user_id product') \<noteq> requester'
            then (Response 401 (status_body ''Permission denied''), st)
            else (Response 200 success, delete_Product product' st))"
    by (simp add: delete_product_route_def token_required_verified delete_product_body_def)
  ultimately show ?thesis by simp
qed

text \<open>
  The owner's complete body that asks for category 9223372036854775808: the commit cannot
  store it and the handler ends with the exception.
\<close>

lemma owner_update_out_of_range:
  "update_product_route lib conf
     \<lparr>authorization = Some ''Bearer alice-token'', json = lamp_far\<rparr> shop
   = (Raised StorageError, shop)"
proof -
  have v: "Schema_validate lib UPDATE_PRODUCT_SCHEMA lamp_far =
             Inr [(''product_id'', JInt 1), (''product_name'', JStr ''desk lamp''),
                  (''picture'', JStr ''desk.png''), (''selling_price'', JFloat 12),
                  (''description'', JStr ''a desk lamp''),
                  (''category_id'', JInt 9223372036854775808)]"
    by (simp add: Schema_validate_def UPDATE_PRODUCT_SCHEMA_def lamp_far_def keys_def lib_def)
  have c: "json_copy lamp_far = Some lamp_far"
    by (simp add: lamp_far_def)
  show ?thesis
    by (simp add: update_product_route_def token_required_verified alice_verified
        update_product_body_def c v alice_id get_int_def get_str_def get_float_def BIGINT_def
        shop_lamp update_fields_def update_field_def keys_def lamp_def opt_str_def)
qed

text \<open>
  Claim C1, at a body with a proper subset of the fields sent by a user who does not own
  the product. The claim says that an authenticated \<open>PUT /product\<close> by a user other than
  the owner of the target product is answered with 401 and the body
  \<open>{"status": "Permission denied"}\<close>, the product unchanged, and that the owner's request
  succeeds with 200. Bob's body with \<open>product_id\<close> and \<open>product_name\<close> alone, aimed at
  alice's product, never reaches the comparison of owners: \<open>UPDATE_PRODUCT_SCHEMA\<close> marks
  no key optional and the answer is 400. With the complete body the answer is the 401 of
  the claim.
\<close>

theorem non_owner_subset_rejected:
  "update_product_route lib conf
     \<lparr>authorization = Some ''Bearer bob-token'',
      json = JObj [(''product_id'', JInt 1), (''product_name'', JStr ''desk lamp'')]\<rparr> shop
   = (Response 400
        (bad_request lib
           (MissingKeys [''picture'', ''selling_price'', ''description'', ''category_id''])),
      shop)
   \<and> update_product_route lib conf
     \<lparr>authorization = Some ''Bearer bob-token'', json = lamp_update\<rparr> shop
   = (Response 401 (status_body ''Permission denied''), shop)"
proof -
  have v: "Schema_validate lib UPDATE_PRODUCT_SCHEMA
             (JObj [(''product_id'', JInt 1), (''product_name'', JStr ''desk lamp'')])
           = Inl (MissingKeys [''picture'', ''selling_price'', ''description'', ''category_id''])"
    by (simp add: Schema_validate_def UPDATE_PRODUCT_SCHEMA_def keys_def)
  have part: "update_product_route lib conf
     \<lparr>authorization = Some ''Bearer bob-token'',
      json = JObj [(''product_id'', JInt 1), (''product_name'', JStr ''desk lamp'')]\<rparr> shop
   = (Response 400
        (bad_request lib
           (MissingKeys [''picture'', ''selling_price'', ''description'', ''category_id''])),
      shop)"
    by (simp add: update_product_route_def token_required_verified bob_verified
        update_product_body_def v)
  have c: "json_copy lamp_update = Some lamp_update"
    by (simp add: lamp_update_def)
  have pid: "get_int lamp_validated ''product_id'' = Some 1"
    by (simp add: get_int_def lamp_validated_def)
  have full: "update_product_route lib conf
     \<lparr>authorization = Some ''Bearer bob-token'', json = lamp_update\<rparr> shop
   = (Response 401 (status_body ''Permission denied''), shop)"
    by (simp add: update_product_route_def token_required_verified bob_verified
        update_product_body_def c lamp_update_valid bob_id pid BIGINT_def shop_lamp)
       (simp add: lamp_def opt_str_def)
  from part full show ?thesis by simp
qed

section \<open>Registration and login\<close>

text \<open>
  Claim C5. A \<open>POST /register\<close> whose body passes the schema and whose email is that of
  a stored user is answered with 409, and the tables are unchanged: no row is inserted
  and none is modified.
\<close>

theorem register_conflict:
  assumes "Schema_validate x REGISTER_SCHEMA (json req) = Inr request"
    and "get_str request ''email'' = Some em"
    and "em \<in> set (map email (users st))"
  shows "register_route x cfg ev req st = (Response 409 (status_body ''Email is already exsit''), st)"
proof -
  from Schema_validate_InrD[OF assms(1)] obtain d where d: "json req = JObj d" by blast
  from REGISTER_SCHEMA_fields[OF assms(1)] assms(2) obtain name password ph where
    f: "get_str request ''user_name'' = Some name" "get_str request ''password'' = Some password"
       "get_str request ''phone'' = Some ph" by auto
  from assms(3) have "first_User_by_email em st \<noteq> None"
    by (auto simp: first_User_by_email_def find_None_iff)
  with assms(1,2) d f show ?thesis
    by (simp add: register_route_def)
qed

theorem register_conflict_witness:
  "register_route lib conf surroundings alice_again shop
     = (Response 409 (status_body ''Email is already exsit''), shop)"
proof -
  have v: "Schema_validate lib REGISTER_SCHEMA (json alice_again) =
             Inr [(''user_name'', JStr ''alice2''), (''password'', JStr ''other''),
                  (''phone'', JStr ''999''), (''email'', JStr ''a@b.com'')]"
    by (simp add: Schema_validate_def REGISTER_SCHEMA_def alice_again_def keys_def is_email_ab)
  have e: "get_str [(''user_name'', JStr ''alice2''), (''password'', JStr ''other''),
                  (''phone'', JStr ''999''), (''email'', JStr ''a@b.com'' :: rat json)] ''email'' = Some ''a@b.com''"
    by (simp add: get_str_def)
  have m: "''a@b.com'' \<in> set (map email (users shop))"
    by (simp add: shop_def alice_def)
  from register_conflict [OF v e m] show ?thesis .
qed

text \<open>
  The two failures \<open>login_route\<close> answers itself: no user of that name, and a password
  that \<open>bcrypt.checkpw\<close> finds wrong, both 401 with the body \<open>{"status": "Unauthorized"}\<close>.
  A call of \<open>bcrypt.checkpw\<close> that raises is not caught.
\<close>

lemma login_unauthorized:
  assumes "Schema_validate x LOGIN_SCHEMA (json req) = Inr request"
    and "get_str request ''user_name'' = Some name"
    and "get_str request ''password'' = Some password"
    and "first_User_by_name name st = None
         \<or> (\<exists>u. first_User_by_name name st = Some u \<and> bcrypt_checkpw x password (hash u) = Some False)"
  shows "login_route x cfg ev req st = (Response 401 (status_body ''Unauthorized''), st)"
proof -
  from Schema_validate_InrD[OF assms(1)] obtain d where d: "json req = JObj d" by blast
  from assms d show ?thesis
    by (auto simp: login_route_def)
qed

lemma login_raises:
  assumes "Schema_validate x LOGIN_SCHEMA (json req) = Inr request"
    and "get_str request ''user_name'' = Some name"
    and "get_str request ''password'' = Some password"
    and "first_User_by_name name st = Some u"
    and "bcrypt_checkpw x password (hash u) = None"
  shows "login_route x cfg ev req st = (Raised LibraryError, st)"
proof -
  from Schema_validate_InrD[OF assms(1)] obtain d where d: "json req = JObj d" by blast
  from assms d show ?thesis
    by (simp add: login_route_def)
qed

text \<open>
  Claim C6, at a password that is one lone surrogate (the JSON string \<open>"\ud800"\<close>). The
  claim says that a well-formed \<open>POST /login\<close> that fails is answered with 401 and
  \<open>{"status": "Unauthorized"}\<close> alike when no user has the name and when the password
  does not verify against the stored hash. The body passes \<open>LOGIN_SCHEMA\<close>. For the
  unknown name carol the answer is that 401; for the stored user alice the handler goes
  on to \<open>bcrypt.checkpw(password.encode(), ...)\<close>, which raises, and ends with the
  exception: the two failures are told apart.
\<close>

theorem login_failures_differ:
  "login_route lib conf surroundings
     \<lparr>authorization = None,
      json = JObj [(''user_name'', JStr ''carol''), (''password'', JStr lone_surrogate)]\<rparr> shop
     = (Response 401 (status_body ''Unauthorized''), shop)
   \<and> login_route lib conf surroundings
     \<lparr>authorization = None,
      json = JObj [(''user_name'', JStr ''alice''), (''password'', JStr lone_surrogate)]\<rparr> shop
     = (Raised LibraryError, shop)"
proof -
  have ne: "lone_surrogate \<noteq> []"
    by (simp add: lone_surrogate_def)
  have v: "Schema_validate lib LOGIN_SCHEMA
             (json \<lparr>authorization = None,
                    json = JObj [(''user_name'', JStr n), (''password'', JStr lone_surrogate)]\<rparr>)
           = Inr [(''user_name'', JStr n), (''password'', JStr lone_surrogate)]" if "n \<noteq> []" for n
    using that ne by (simp add: Schema_validate_def LOGIN_SCHEMA_def keys_def)
  have n: "get_str [(''user_name'', JStr n), (''password'', JStr p :: rat json)] ''user_name'' = Some n"
    and p: "get_str [(''user_name'', JStr n), (''password'', JStr p :: rat json)] ''password'' = Some p" for n p
    by (simp_all add: get_str_def)
  have carol: "first_User_by_name ''carol'' shop = None"
    by (simp add: first_User_by_name_def shop_def alice_def bob_def)
  have al: "first_User_by_name ''alice'' shop = Some alice"
    by (simp add: first_User_by_name_def shop_def alice_def bob_def)
  have bad: "bcrypt_checkpw lib lone_surrogate (hash alice) = None"
    by (simp add: lib_def lone_surrogate_def)
  have "login_route lib conf surroundings
     \<lparr>authorization = None,
      json = JObj [(''user_name'', JStr ''carol''), (''password'', JStr lone_surrogate)]\<rparr> shop
     = (Response 401 (status_body ''Unauthorized''), shop)"
    by (rule login_unauthorized [OF v n p]) (simp_all add: carol)
  moreover have "login_route lib conf surroundings
     \<lparr>authorization = None,
      json = JObj [(''user_name'', JStr ''alice''), (''password'', JStr lone_surrogate)]\<rparr> shop
     = (Raised LibraryError, shop)"
    by (rule login_raises [OF v n p al bad]) simp
  ultimately show ?thesis by simp
qed

section \<open>Issued tokens\<close>

text \<open>
  Claim C3. When \<open>register_route\<close> or \<open>login_route\<close> answers 200, the body is
  \<open>{"token": t}\<close> where \<open>t\<close> is \<open>jwt.encode\<close> of a payload built from a stored user:
  its keys are \<open>iat\<close>, \<open>exp\<close> and the six identity fields \<open>user_id\<close>, \<open>user_name\<close>,
  \<open>phone\<close>, \<open>role\<close>, \<open>email\<close>, \<open>profile_picture\<close> with the values of that user, and
  \<open>hash\<close> is not a key of it.
\<close>

theorem issued_claims:
  assumes "register_route x cfg ev req st = (Response 200 body, st')
           \<or> login_route x cfg ev req st = (Response 200 body, st')"
  shows "\<exists>u. u \<in> set (users st')
           \<and> body = token_body (jwt_encode x (token_payload x ev HOUR (User_to_dict u))
                                  (JWT_PRIVATE_KEY cfg) (JWT_ALGORITHM cfg))
           \<and> token_payload x ev HOUR (User_to_dict u) =
               [(''iat'', JFloat (now ev 0)), (''exp'', JFloat (float_add_int x (now ev 1) HOUR)),
                (''user_id'', JStr (user_id u)), (''user_name'', JStr (user_name u)),
                (''phone'', JStr (phone u)), (''role'', JInt (role u)),
                (''email'', JStr (email u)), (''profile_picture'', opt_str (profile_picture u))]
           \<and> ''hash'' \<notin> set (keys (token_payload x ev HOUR (User_to_dict u)))"
proof -
  from assms obtain u where u: "u \<in> set (users st')"
      "body = token_body (create_token x cfg ev HOUR (User_to_dict u))"
  proof
    assume "register_route x cfg ev req st = (Response 200 body, st')"
    from register_route_200[OF this] get_User_mem that show ?thesis by blast
  next
    assume "login_route x cfg ev req st = (Response 200 body, st')"
    from login_route_200[OF this] first_User_by_name_mem that show ?thesis by blast
  qed
  have p: "token_payload x ev HOUR (User_to_dict u) =
               [(''iat'', JFloat (now ev 0)), (''exp'', JFloat (float_add_int x (now ev 1) HOUR)),
                (''user_id'', JStr (user_id u)), (''user_name'', JStr (user_name u)),
                (''phone'', JStr (phone u)), (''role'', JInt (role u)),
                (''email'', JStr (email u)), (''profile_picture'', opt_str (profile_picture u))]"
    by (simp add: token_payload_User) (simp add: User_to_dict_def)
  have "''hash'' \<notin> set (keys (token_payload x ev HOUR (User_to_dict u)))"
    unfolding p by (simp add: keys_def)
  with u p show ?thesis by (auto simp: create_token_def)
qed

theorem issued_claims_witness:
  "\<exists>u. u \<in> set [newcomer]
       \<and> map_of (token_payload lib surroundings HOUR (User_to_dict u)) ''email''
           = Some (JStr ''a@b.com'')
       \<and> ''hash'' \<notin> set (keys (token_payload lib surroundings HOUR (User_to_dict u)))"
proof -
  from issued_claims [OF disjI1 [OF alice_registers_ok]]
  obtain u where u: "u \<in> set [newcomer]"
    "token_payload lib surroundings HOUR (User_to_dict u) =
       [(''iat'', JFloat (now surroundings 0)),
        (''exp'', JFloat (float_add_int lib (now surroundings 1) HOUR)),
        (''user_id'', JStr (user_id u)), (''user_name'', JStr (user_name u)),
        (''phone'', JStr (phone u)), (''role'', JInt (role u)),
        (''email'', JStr (email u)), (''profile_picture'', opt_str (profile_picture u))]"
    "''hash'' \<notin> set (keys (token_payload lib surroundings HOUR (User_to_dict u)))"
    by auto
  from u(1) have "email u = ''a@b.com''" by (simp add: newcomer_def)
  with u show ?thesis by (intro exI [of _ u]) simp
qed

text \<open>
  Claim C7, at two clock readings a microsecond apart. The claim says that the embedded
  expiry is the embedded issued-at plus the lifetime. \<open>create_token\<close> reads the clock
  once for \<open>iat\<close> and once more for \<open>exp\<close>: here \<open>iat\<close> is 1700000000 and \<open>exp\<close> is
  1700003600.000001, which is not \<open>iat\<close> plus one hour.
\<close>

theorem expiry_reads_clock_again:
  "map_of (token_payload lib surroundings HOUR (User_to_dict alice)) ''iat''
     = Some (JFloat 1700000000)
   \<and> map_of (token_payload lib surroundings HOUR (User_to_dict alice)) ''exp''
     = Some (JFloat (1700003600 + 1 / 1000000))
   \<and> float_add_int lib 1700000000 HOUR = 1700003600
   \<and> (1700003600 + 1 / 1000000 :: rat) \<noteq> 1700003600"
  unfolding token_payload_User
  by (simp add: User_to_dict_def lib_def surroundings_def HOUR_def MINUTE_def SECOND_def)

section \<open>Created products and users\<close>

lemma create_product_body_200:
  assumes "create_product_body x ev claims req st = (Response 200 body, st')"
  shows "\<exists>name pic price descr cat owner current_user_id.
           map_of claims ''user_id'' = Some current_user_id
           \<and> store_VARCHAR x current_user_id = Some owner
           \<and> st' = add_Product
               \<lparr>product_id = new_product_id ev, product_name = name, picture = pic,
                selling_price = price, description = descr, available = 0,
                product_user_id = owner, category_id = cat\<rparr> st
           \<and> body = success"
proof (cases "map_of claims ''user_id''")
  case None
  with assms show ?thesis
    by (simp add: create_product_body_def split: option.splits sum.splits)
next
  case (Some current_user_id)
  show ?thesis
  proof (cases "store_VARCHAR x current_user_id")
    case None
    with assms Some show ?thesis
      by (simp add: create_product_body_def split: option.splits sum.splits)
  next
    case owner: (Some owner)
    with assms Some show ?thesis
      by (simp add: create_product_body_def split: option.splits sum.splits if_splits)
         (blast intro: sym)
  qed
qed

text \<open>
  Claim C8. When an authenticated \<open>POST /product\<close> answers 200, the table of products is
  the one before with one row added at its end and the table of users is unchanged; the
  \<open>user_id\<close> of that row is the \<open>user_id\<close> of the token's claims as the VARCHAR column
  holds it, which is the claim itself when it is a string (as every id the application
  issues is), and its \<open>available\<close> is 0, whatever the body says.
\<close>

theorem created_product_owner:
  assumes "verified_claims x cfg req = Some claims"
    and "create_product_route x cfg ev req st = (Response 200 body, st')"
  shows "\<exists>p current_user_id.
           products st' = products st @ [p] \<and> users st' = users st
           \<and> map_of claims ''user_id'' = Some current_user_id
           \<and> store_VARCHAR x current_user_id = Some (product_user_id p)
           \<and> (\<forall>s. current_user_id = JStr s \<longrightarrow> product_user_id p = Some s)
           \<and> available p = 0 \<and> product_id p = new_product_id ev \<and> body = success"
proof -
  from assms have "create_product_body x ev claims req st = (Response 200 body, st')"
    by (simp add: create_product_route_def token_required_verified)
  from create_product_body_200 [OF this]
  obtain name pic price descr cat owner current_user_id where
    u: "map_of claims ''user_id'' = Some current_user_id"
    and o: "store_VARCHAR x current_user_id = Some owner"
    and st': "st' = add_Product
               \<lparr>product_id = new_product_id ev, product_name = name, picture = pic,
                selling_price = price, description = descr, available = 0,
                product_user_id = owner, category_id = cat\<rparr> st"
    and b: "body = success"
    by blast
  let ?p = "\<lparr>product_id = new_product_id ev, product_name = name, picture = pic,
             selling_price = price, description = descr, available = 0,
             product_user_id = owner, category_id = cat\<rparr>"
  have t: "products st' = products st @ [?p]" "users st' = users st"
    unfolding st' by (simp_all add: add_Product_def)
  have "products st' = products st @ [?p] \<and> users st' = users st
           \<and> map_of claims ''user_id'' = Some current_user_id
           \<and> store_VARCHAR x current_user_id = Some (product_user_id ?p)
           \<and> (\<forall>s. current_user_id = JStr s \<longrightarrow> product_user_id ?p = Some s)
           \<and> available ?p = 0 \<and> product_id ?p = new_product_id ev \<and> body = success"
    using t u o b by auto
  then show ?thesis by blast
qed


theorem created_product_owner_witness:
  "create_product_route lib conf surroundings
     \<lparr>authorization = Some ''Bearer bob-token'', json = chair_body\<rparr> shop
     = (Response 200 success, \<lparr>users = [alice, bob], products = [lamp, chair]\<rparr>)
   \<and> (\<exists>p. [lamp, chair] = [lamp] @ [p]
          \<and> product_user_id p = Some ''u-bob'' \<and> available p = 0)"
proof -
  have v: "Schema_validate lib CREATE_PRODUCT_SCHEMA chair_body =
             Inr [(''product_name'', JStr ''chair''), (''picture'', JStr ''chair.png''),
                  (''selling_price'', JFloat 30), (''description'', JStr ''a chair''),
                  (''category_id'', JInt 4)]"
    by (simp add: Schema_validate_def CREATE_PRODUCT_SCHEMA_def chair_body_def keys_def lib_def)
  have c: "json_copy chair_body = Some chair_body"
    by (simp add: chair_body_def)
  have k: "new_product_id surroundings = 2"
    by (simp add: surroundings_def)
  have run: "create_product_route lib conf surroundings
     \<lparr>authorization = Some ''Bearer bob-token'', json = chair_body\<rparr> shop
     = (Response 200 success, \<lparr>users = [alice, bob], products = [lamp, chair]\<rparr>)"
    by (simp add: create_product_route_def token_required_verified bob_verified
        create_product_body_def c v get_str_def get_int_def get_float_def bob_id chair_def k
        BIGINT_def add_Product_def shop_def)
  from created_product_owner [OF bob_verified run]
  obtain p current_user_id where
    a: "products \<lparr>users = [alice, bob], products = [lamp, chair]\<rparr> = products shop @ [p]"
    and b: "map_of (User_to_dict bob :: rat dict) ''user_id'' = Some current_user_id"
    and c: "\<forall>s. current_user_id = JStr s \<longrightarrow> product_user_id p = Some s"
    and d: "available p = 0"
    by blast
  from b have "current_user_id = JStr ''u-bob''"
    by (simp add: bob_id)
  with c have e: "product_user_id p = Some ''u-bob''"
    by simp
  from a have f: "[lamp, chair] = [lamp] @ [p]"
    by (simp add: shop_def)
  from f e d have "\<exists>p. [lamp, chair] = [lamp] @ [p]
          \<and> product_user_id p = Some ''u-bob'' \<and> available p = 0"
    by blast
  with run show ?thesis by blast
qed

text \<open>
  A token whose \<open>user_id\<close> claim is the number 5: the row is written and holds the text.
\<close>

lemma created_product_number_claim:
  "create_product_body lib surroundings [(''user_id'', JInt 5)]
     \<lparr>authorization = None, json = chair_body\<rparr> shop
   = (Response 200 success,
      \<lparr>users = [alice, bob], products = [lamp, chair\<lparr>product_user_id := Some ''5''\<rparr>]\<rparr>)"
proof -
  have v: "Schema_validate lib CREATE_PRODUCT_SCHEMA chair_body =
             Inr [(''product_name'', JStr ''chair''), (''picture'', JStr ''chair.png''),
                  (''selling_price'', JFloat 30), (''description'', JStr ''a chair''),
                  (''category_id'', JInt 4)]"
    by (simp add: Schema_validate_def CREATE_PRODUCT_SCHEMA_def chair_body_def keys_def lib_def)
  have c: "json_copy chair_body = Some chair_body"
    by (simp add: chair_body_def)
  have k: "new_product_id surroundings = 2"
    by (simp add: surroundings_def)
  have five: "str_int 5 = ''5''"
    by (simp add: str_int_def str_nat.simps digit_def)
  show ?thesis
    by (simp add: create_product_body_def c v get_str_def get_int_def get_float_def chair_def k
        BIGINT_def add_Product_def shop_def five)
qed

text \<open>
  Claim C9. When \<open>POST /register\<close> answers 200, the row it wrote has the \<open>user_id\<close>
  that \<open>uuid.uuid4()\<close> returned, which is no part of the request, and the role
  \<open>UserRole.user.value\<close>, not that of \<open>admin\<close>; and a body with a key outside the four
  of \<open>REGISTER_SCHEMA\<close> (such as \<open>role\<close> or \<open>user_id\<close>) is answered with 400 and the
  tables are unchanged.
\<close>

theorem register_identity_server_side:
  assumes "register_route x cfg ev req st = (Response 200 body, st')"
    and "json req' = JObj d" and "k \<in> set (keys d)" and "k \<notin> set (keys REGISTER_SCHEMA)"
  shows "(\<exists>r u. st' = merge_User r st \<and> user_id r = uuid4 ev \<and> role r = UserRole_value user
              \<and> get_User (JStr (uuid4 ev)) st' = Some u
              \<and> user_id u = uuid4 ev \<and> role u = UserRole_value user
              \<and> role u \<noteq> UserRole_value admin)
         \<and> (\<exists>e. register_route x cfg ev' req' st0 = (Response 400 (bad_request x e), st0))"
proof -
  from register_route_200 [OF assms(1)] obtain name ph em h u where
    st': "st' = merge_User \<lparr>user_id = uuid4 ev, user_name = name, phone = ph,
                              role = UserRole_value user, email = em,
                              profile_picture = None, hash = h\<rparr> st"
    and u: "get_User (JStr (uuid4 ev)) st' = Some u" by blast
  let ?r = "\<lparr>user_id = uuid4 ev, user_name = name, phone = ph, role = UserRole_value user,
             email = em, profile_picture = None, hash = h\<rparr>"
  from u st' have "get_User (JStr (user_id ?r)) (merge_User ?r st) = Some u" by simp
  from get_User_merge_User [OF this] have "user_id u = uuid4 ev" "role u = UserRole_value user"
    by simp_all
  with st' u have first: "\<exists>r u. st' = merge_User r st \<and> user_id r = uuid4 ev
      \<and> role r = UserRole_value user \<and> get_User (JStr (uuid4 ev)) st' = Some u
      \<and> user_id u = uuid4 ev \<and> role u = UserRole_value user \<and> role u \<noteq> UserRole_value admin"
    by (intro exI [of _ ?r] exI [of _ u]) simp
  from Schema_validate_extra_key [OF assms(3,4)] obtain e where
    "Schema_validate x REGISTER_SCHEMA (JObj d) = Inl e" by blast
  with assms(2) have "register_route x cfg ev' req' st0 = (Response 400 (bad_request x e), st0)"
    by (simp add: register_route_def)
  with first show ?thesis by blast
qed

theorem register_identity_server_side_witness:
  "(\<exists>u. get_User (JStr ''u-new'') (\<lparr>users = [newcomer], products = []\<rparr> :: rat db) = Some u
        \<and> user_id u = ''u-new'' \<and> role u = 0)
   \<and> (\<exists>e. register_route lib conf surroundings alice_admin empty_shop
            = (Response 400 (bad_request lib e), empty_shop))"
proof -
  have j: "json alice_admin =
     JObj [(''user_name'', JStr ''alice''), (''password'', JStr ''pw123456''),
           (''phone'', JStr ''555''), (''email'', JStr ''a@b.com''),
           (''role'', JInt 1), (''user_id'', JStr ''u-bob'')]"
    by (simp add: alice_admin_def)
  have k: "''role'' \<in> set (keys [(''user_name'', JStr ''alice''), (''password'', JStr ''pw123456''),
           (''phone'', JStr ''555''), (''email'', JStr ''a@b.com''),
           (''role'', JInt 1), (''user_id'', JStr ''u-bob'' :: rat json)])"
    by (simp add: keys_def)
  have n: "''role'' \<notin> set (keys REGISTER_SCHEMA)"
    by (simp add: keys_def REGISTER_SCHEMA_def)
  have id: "uuid4 surroundings = ''u-new''" by (simp add: surroundings_def)
  from register_identity_server_side [OF alice_registers_ok j k n, of surroundings empty_shop]
  show ?thesis unfolding id UserRole_value.simps by blast
qed

section \<open>Partial updates\<close>

text \<open>
  Claim C4, at a body with a proper subset of the fields. The claim says that the owner's
  \<open>PUT /product\<close> with \<open>product_id\<close> and any subset of the other fields is accepted.
  The loop of \<open>update_product_route\<close> assigns only the keys it finds, but
  \<open>UPDATE_PRODUCT_SCHEMA\<close> marks no key optional: the owner's body with \<open>product_id\<close>
  and \<open>product_name\<close> alone is answered with 400, and the product is unchanged.
\<close>

theorem update_subset_rejected:
  "update_product_route lib conf
     \<lparr>authorization = Some ''Bearer alice-token'',
      json = JObj [(''product_id'', JInt 1), (''product_name'', JStr ''desk lamp'')]\<rparr> shop
   = (Response 400
        (bad_request lib
           (MissingKeys [''picture'', ''selling_price'', ''description'', ''category_id''])),
      shop)"
proof -
  have v: "Schema_validate lib UPDATE_PRODUCT_SCHEMA
             (JObj [(''product_id'', JInt 1), (''product_name'', JStr ''desk lamp'')])
           = Inl (MissingKeys [''picture'', ''selling_price'', ''description'', ''category_id''])"
    by (simp add: Schema_validate_def UPDATE_PRODUCT_SCHEMA_def keys_def)
  show ?thesis
    by (simp add: update_product_route_def token_required_verified alice_verified
        update_product_body_def v)
qed

end
